theory Spec2Isabelle
  imports Main
begin

section \<open>Calendar dates\<close>

text \<open>
  The repository computes with \<^verbatim>\<open>datetime.date\<close> and \<^verbatim>\<open>timedelta\<close>. A date is
  a year, a month and a day of the proleptic Gregorian calendar; adding days goes through
  the day number (ordinal) of the date, 1 being 0001-01-01, and a result outside the years
  1..9999 raises \<^verbatim>\<open>OverflowError\<close>.
\<close>

record date =
  year :: int
  month :: int
  day :: int

datatype error = OverflowError | MultipleResultsFound

definition is_leap :: "int \<Rightarrow> bool" where
  "is_leap y = (y mod 4 = 0 \<and> (y mod 100 \<noteq> 0 \<or> y mod 400 = 0))"

definition days_before_year :: "int \<Rightarrow> int" where
  "days_before_year y = (y - 1) * 365 + (y - 1) div 4 - (y - 1) div 100 + (y - 1) div 400"

fun days_in_common_month :: "int \<Rightarrow> int" where
  "days_in_common_month m =
     (if m = 2 then 28 else if m = 4 \<or> m = 6 \<or> m = 9 \<or> m = 11 then 30 else 31)"

definition days_in_month :: "int \<Rightarrow> int \<Rightarrow> int" where
  "days_in_month y m = (if m = 2 \<and> is_leap y then 29 else days_in_common_month m)"

definition days_before_month :: "int \<Rightarrow> int \<Rightarrow> int" where
  "days_before_month y m = (\<Sum>k \<leftarrow> [1 ..< nat m]. days_in_month y (int k))"

definition toordinal :: "date \<Rightarrow> int" where
  "toordinal d = days_before_year (year d) + days_before_month (year d) (month d) + day d"

definition max_ordinal :: int where
  "max_ordinal = 3652059"

text \<open>
  The date with a given day number: the year is found from the 400, 100, 4 and 1 year
  cycles, the month by walking the months of that year.
\<close>

fun month_of_offset :: "int \<Rightarrow> nat \<Rightarrow> int \<Rightarrow> int \<times> int" where
  "month_of_offset y 0 n = (12, n)"
| "month_of_offset y (Suc k) n =
     (let m = 12 - int (Suc k) + 1; dim = days_in_month y m
      in if n < dim \<or> m = 12 then (m, n) else month_of_offset y k (n - dim))"

definition fromordinal :: "int \<Rightarrow> date" where
  "fromordinal ord =
     (let n = ord - 1;
          n400 = n div 146097; n = n mod 146097;
          n100 = n div 36524; n = n mod 36524;
          n4 = n div 1461; n = n mod 1461;
          n1 = n div 365; n = n mod 365;
          y = n400 * 400 + 1 + n100 * 100 + n4 * 4 + n1
      in if n1 = 4 \<or> n100 = 4 then \<lparr>year = y - 1, month = 12, day = 31\<rparr>
         else (case month_of_offset y 12 n of (m, r) \<Rightarrow> \<lparr>year = y, month = m, day = r + 1\<rparr>))"

definition date_add :: "date \<Rightarrow> int \<Rightarrow> error + date" where
  "date_add d n =
     (let ord = toordinal d + n
      in if 0 < ord \<and> ord \<le> max_ordinal then Inr (fromordinal ord) else Inl OverflowError)"

text \<open>Dates compare as the triples (year, month, day).\<close>

definition date_le :: "date \<Rightarrow> date \<Rightarrow> bool" where
  "date_le a b =
     (year a < year b \<or> (year a = year b \<and> (month a < month b \<or> (month a = month b \<and> day a \<le> day b))))"

text \<open>SQL \<^verbatim>\<open>x BETWEEN lo AND hi\<close>: both ends inclusive; a NULL is in no range.\<close>

definition between :: "date option \<Rightarrow> date \<Rightarrow> date \<Rightarrow> bool" where
  "between x lo hi = (case x of None \<Rightarrow> False | Some b \<Rightarrow> date_le lo b \<and> date_le b hi)"

section \<open>Contacts and the store\<close>

text \<open>
  Modelled from the spec: the Contact entity and the request schemas (\<^verbatim>\<open>src.entity.models\<close>,
  \<^verbatim>\<open>src.schemas.contact\<close>) are not among the sources. A contact has the nine mutable fields
  the update writes, an identifier and an owning user; the request bodies carry the same nine
  fields. A birthday may be NULL (\<open>None\<close>).
\<close>

record contact_fields =
  first_name :: string
  last_name :: string
  email :: string
  phone_number :: string
  birthday :: "date option"
  address :: string
  "notes" :: string
  interests :: "string list"
  is_active :: bool

record contact = contact_fields +
  contact_id :: int
  user :: nat

datatype field_name =
  First_name | Last_name | Email | Phone_number | Birthday | Address | Notes | Interests | Is_active

text \<open>
  A creation body also records which fields the request has set
  (\<^verbatim>\<open>model_fields_set\<close>): \<^verbatim>\<open>model_dump(exclude_unset = True)\<close> leaves the others out.
\<close>

record contact_schema = contact_fields +
  model_fields_set :: "field_name set"

text \<open>
  Modelled from the spec: the table's declaration is not among the sources. The rows are kept
  in their natural (insertion) order; identifiers are unique and system-assigned, here drawn
  from a sequence.
\<close>

record store =
  rows :: "contact list"
  next_id :: int

text \<open>
  The primary key: no two rows share an identifier. The sequence is ahead of every
  identifier in the table.
\<close>

definition primary_key :: "store \<Rightarrow> bool" where
  "primary_key s = distinct (map contact_id (rows s))"

definition sequence_ahead :: "store \<Rightarrow> bool" where
  "sequence_ahead s = list_all (\<lambda>c. contact_id c < next_id s) (rows s)"

section \<open>Results of a statement\<close>

text \<open>
  An executed statement gives a result holding the rows not yet fetched.
  \<^verbatim>\<open>scalars().all()\<close> returns all of them and leaves the result exhausted: a second call
  returns the empty list. \<^verbatim>\<open>scalar_one_or_none()\<close> returns the only row, nothing when
  there is none, and raises when there are several.
\<close>

type_synonym 'a result = "'a list"

definition execute :: "'a list \<Rightarrow> 'a result" where
  "execute selected = selected"

definition scalars_all :: "'a result \<Rightarrow> 'a list \<times> 'a result" where
  "scalars_all r = (r, [])"

definition scalar_one_or_none :: "'a result \<Rightarrow> error + 'a option" where
  "scalar_one_or_none r =
     (case r of [] \<Rightarrow> Inr None | [x] \<Rightarrow> Inr (Some x) | _ # _ # _ \<Rightarrow> Inl MultipleResultsFound)"

text \<open>\<^verbatim>\<open>.offset(offset).limit(limit)\<close>, for the non-negative values the routes let through.\<close>

definition offset_limit :: "nat \<Rightarrow> nat \<Rightarrow> 'a list \<Rightarrow> 'a list" where
  "offset_limit offset limit xs = take limit (drop offset xs)"

section \<open>repository/contacts.py\<close>

definition get_contacts :: "nat \<Rightarrow> nat \<Rightarrow> nat \<Rightarrow> store \<Rightarrow> contact list" where
  "get_contacts limit offset current_user s =
     (let data = offset_limit offset limit (filter (\<lambda>c. user c = current_user) (rows s));
          contacts = execute data
      in fst (scalars_all contacts))"

definition get_all_contacts :: "nat \<Rightarrow> nat \<Rightarrow> nat \<Rightarrow> store \<Rightarrow> contact list" where
  "get_all_contacts limit offset current_user s =
     (let data = offset_limit offset limit (rows s);
          contacts = execute data
      in fst (scalars_all contacts))"

definition get_contact :: "int \<Rightarrow> nat \<Rightarrow> store \<Rightarrow> error + contact option" where
  "get_contact cid current_user s =
     (let data = filter (\<lambda>c. contact_id c = cid \<and> user c = current_user) (rows s);
          contact = execute data
      in scalar_one_or_none contact)"

text \<open>
  The constructor gets the fields the request has set; a column left out of the INSERT takes
  the value the table gives it (\<open>column_default\<close>, a parameter: the table's declaration is
  not among the sources). The identifier comes from the sequence.
\<close>

definition model_dump :: "contact_fields \<Rightarrow> contact_schema \<Rightarrow> contact_fields" where
  "model_dump column_default body =
     (let given = (\<lambda>f. f \<in> model_fields_set body)
      in \<lparr>first_name = (if given First_name then first_name body else first_name column_default),
          last_name = (if given Last_name then last_name body else last_name column_default),
          email = (if given Email then email body else email column_default),
          phone_number = (if given Phone_number then phone_number body else phone_number column_default),
          birthday = (if given Birthday then birthday body else birthday column_default),
          address = (if given Address then address body else address column_default),
          notes = (if given Notes then notes body else notes column_default),
          interests = (if given Interests then interests body else interests column_default),
          is_active = (if given Is_active then is_active body else is_active column_default)\<rparr>)"

definition create_contact :: "contact_fields \<Rightarrow> contact_schema \<Rightarrow> nat \<Rightarrow> store \<Rightarrow> contact \<times> store" where
  "create_contact column_default body current_user s =
     (let contact = contact_fields.extend (model_dump column_default body)
                      (contact.fields (next_id s) current_user)
      in (contact, \<lparr>rows = rows s @ [contact], next_id = next_id s + 1\<rparr>))"

text \<open>The nine assignments of the update.\<close>

definition assign_fields :: "contact_fields \<Rightarrow> contact \<Rightarrow> contact" where
  "assign_fields body contact =
     contact\<lparr>first_name := first_name body,
             last_name := last_name body,
             email := email body,
             phone_number := phone_number body,
             birthday := birthday body,
             address := address body,
             notes := notes body,
             interests := interests body,
             is_active := is_active body\<rparr>"

text \<open>
  The commit writes the changed object back by its primary key; a deletion removes the row
  with the object's primary key.
\<close>

definition update_contact ::
  "int \<Rightarrow> contact_fields \<Rightarrow> nat \<Rightarrow> store \<Rightarrow> error + (contact option \<times> store)" where
  "update_contact cid body current_user s =
     (let data = filter (\<lambda>c. contact_id c = cid \<and> user c = current_user) (rows s);
          result = execute data
      in case scalar_one_or_none result of
           Inl e \<Rightarrow> Inl e
         | Inr None \<Rightarrow> Inr (None, s)
         | Inr (Some contact) \<Rightarrow>
             Inr (Some (assign_fields body contact),
                  s\<lparr>rows := map (\<lambda>c. if contact_id c = contact_id contact then assign_fields body c else c)
                                (rows s)\<rparr>))"

definition delete_contact :: "int \<Rightarrow> nat \<Rightarrow> store \<Rightarrow> error + (contact option \<times> store)" where
  "delete_contact cid current_user s =
     (let data = filter (\<lambda>c. contact_id c = cid \<and> user c = current_user) (rows s);
          contact = execute data
      in case scalar_one_or_none contact of
           Inl e \<Rightarrow> Inl e
         | Inr None \<Rightarrow> Inr (None, s)
         | Inr (Some contact) \<Rightarrow>
             Inr (Some contact, s\<lparr>rows := filter (\<lambda>c. contact_id c \<noteq> contact_id contact) (rows s)\<rparr>))"

definition delete_all_contact :: "int \<Rightarrow> nat \<Rightarrow> store \<Rightarrow> error + (contact option \<times> store)" where
  "delete_all_contact cid current_user s =
     (let data = filter (\<lambda>c. contact_id c = cid) (rows s);
          contact = execute data
      in case scalar_one_or_none contact of
           Inl e \<Rightarrow> Inl e
         | Inr None \<Rightarrow> Inr (None, s)
         | Inr (Some contact) \<Rightarrow>
             Inr (Some contact, s\<lparr>rows := filter (\<lambda>c. contact_id c \<noteq> contact_id contact) (rows s)\<rparr>))"

section \<open>repository/birthday.py\<close>

text \<open>
  The clock is an input (\<open>now\<close>). The argument \<open>future_date\<close> is rebound before it is
  read. The result of the statement is fetched twice: the first fetch is kept in
  \<open>qqqq\<close>, and the function returns the second.
\<close>

definition upcoming_statement :: "date \<Rightarrow> date \<Rightarrow> nat \<Rightarrow> nat \<Rightarrow> nat \<Rightarrow> store \<Rightarrow> contact list" where
  "upcoming_statement current_date future_date limit offset current_user s =
     offset_limit offset limit
       (filter (\<lambda>c. user c = current_user)
          (filter (\<lambda>c. between (birthday c) current_date future_date) (rows s)))"

definition get_contact_with_upcoming_birthday ::
  "date \<Rightarrow> int \<Rightarrow> nat \<Rightarrow> nat \<Rightarrow> nat \<Rightarrow> date option \<Rightarrow> store \<Rightarrow> error + contact list" where
  "get_contact_with_upcoming_birthday now upcoming_days limit offset current_user future_date s =
     (let current_date = now
      in case date_add current_date upcoming_days of
           Inl e \<Rightarrow> Inl e
         | Inr future_date \<Rightarrow>
             (let data = upcoming_statement current_date future_date limit offset current_user s;
                  contacts = execute data;
                  (qqqq, contacts) = scalars_all contacts;
                  (returned, contacts) = scalars_all contacts
              in Inr returned))"

section \<open>Example data\<close>

definition person :: "string \<Rightarrow> date option \<Rightarrow> int \<Rightarrow> nat \<Rightarrow> contact" where
  "person name born cid owner =
     \<lparr>first_name = name, last_name = ''Doe'', email = ''doe@example.com'', phone_number = ''0123456789'',
      birthday = born, address = ''Kyiv'', notes = ''none'', interests = [''chess''], is_active = True,
      contact_id = cid, user = owner\<rparr>"

definition ymd :: "int \<Rightarrow> int \<Rightarrow> int \<Rightarrow> date" where
  "ymd y m d = \<lparr>year = y, month = m, day = d\<rparr>"

definition three_rows :: store where
  "three_rows =
     \<lparr>rows = [person ''Ann'' (Some (ymd 1990 1 3)) 1 1,
              person ''Bob'' (Some (ymd 1985 7 14)) 2 2,
              person ''Cid'' None 3 1],
      next_id = 4\<rparr>"

definition new_fields :: contact_fields where
  "new_fields =
     \<lparr>first_name = ''Dan'', last_name = ''Roe'', email = ''roe@example.com'', phone_number = ''555'',
      birthday = Some (ymd 2001 2 28), address = ''Lviv'', notes = ''met in May'', interests = [],
      is_active = False\<rparr>"

definition new_body :: contact_schema where
  "new_body = contact_fields.extend new_fields
     (contact_schema.fields {First_name, Last_name, Email, Phone_number, Birthday, Address, Notes, Interests})"

definition blank_fields :: contact_fields where
  "blank_fields =
     \<lparr>first_name = [], last_name = [], email = [], phone_number = [], birthday = None, address = [],
      notes = [], interests = [], is_active = True\<rparr>"

definition window_rows :: store where
  "window_rows =
     \<lparr>rows = [person ''Ann'' (Some (ymd 1990 1 3)) 1 1,
              person ''Eve'' (Some (ymd 2025 1 3)) 2 1],
      next_id = 3\<rparr>"

definition year_rows :: store where
  "year_rows =
     \<lparr>rows = [person ''Fay'' (Some (ymd 1990 5 31)) 1 1,
              person ''Gus'' (Some (ymd 2024 5 31)) 2 1,
              person ''Hal'' (Some (ymd 2024 6 1)) 3 1],
      next_id = 4\<rparr>"

section \<open>Facts about results and the primary key\<close>

lemma scalar_one_or_none_Nil: "scalar_one_or_none [] = Inr None"
  by (simp add: scalar_one_or_none_def)

lemma scalar_one_or_none_single: "scalar_one_or_none [x] = Inr (Some x)"
  by (simp add: scalar_one_or_none_def)

lemma no_match_filter:
  "\<not> (\<exists>c \<in> set xs. contact_id c = cid \<and> user c = u) \<Longrightarrow>
   filter (\<lambda>c. contact_id c = cid \<and> user c = u) xs = []"
  by (induction xs) auto

lemma unique_match:
  "distinct (map contact_id xs) \<Longrightarrow> c \<in> set xs \<Longrightarrow> P c \<Longrightarrow>
   filter (\<lambda>r. contact_id r = contact_id c \<and> P r) xs = [c]"
proof (induction xs)
  case Nil
  then show ?case by simp
next
  case (Cons x xs)
  show ?case
  proof (cases "x = c")
    case True
    with Cons.prems have "\<forall>r \<in> set xs. contact_id r \<noteq> contact_id c"
      by (auto simp: image_iff)
    then have "filter (\<lambda>r. contact_id r = contact_id c \<and> P r) xs = []"
      by (simp add: filter_empty_conv)
    with True Cons.prems show ?thesis by simp
  next
    case False
    with Cons.prems have "c \<in> set xs" and "contact_id x \<noteq> contact_id c"
      by (auto simp: image_iff)
    with Cons show ?thesis by simp
  qed
qed

lemma remove_by_key:
  "distinct (map contact_id xs) \<Longrightarrow> c \<in> set xs \<Longrightarrow>
   filter (\<lambda>r. contact_id r \<noteq> contact_id c) xs = remove1 c xs"
proof (induction xs)
  case Nil
  then show ?case by simp
next
  case (Cons x xs)
  show ?case
  proof (cases "x = c")
    case True
    with Cons.prems have "\<forall>r \<in> set xs. contact_id r \<noteq> contact_id c"
      by (auto simp: image_iff)
    then have "filter (\<lambda>r. contact_id r \<noteq> contact_id c) xs = xs"
      by (simp add: filter_id_conv)
    with True show ?thesis by simp
  next
    case False
    with Cons.prems have "c \<in> set xs" and "contact_id x \<noteq> contact_id c"
      by (auto simp: image_iff)
    with Cons False show ?thesis by simp
  qed
qed

lemma at_most_one_match:
  assumes "distinct (map contact_id xs)"
  shows "filter (\<lambda>r. contact_id r = cid \<and> P r) xs = [] \<or>
         (\<exists>c \<in> set xs. contact_id c = cid \<and> P c \<and> filter (\<lambda>r. contact_id r = cid \<and> P r) xs = [c])"
proof (cases "\<exists>c \<in> set xs. contact_id c = cid \<and> P c")
  case True
  then obtain c where c: "c \<in> set xs" "contact_id c = cid" "P c" by blast
  from assms c(1,3) have "filter (\<lambda>r. contact_id r = contact_id c \<and> P r) xs = [c]"
    by (rule unique_match)
  with c show ?thesis by auto
next
  case False
  then have "filter (\<lambda>r. contact_id r = cid \<and> P r) xs = []"
    by (auto simp: filter_empty_conv)
  then show ?thesis by simp
qed

lemma assign_fields_key: "contact_id (assign_fields body c) = contact_id c"
  by (simp add: assign_fields_def)

lemma assign_fields_user: "user (assign_fields body c) = user c"
  by (simp add: assign_fields_def)

lemma same_key_same_row:
  "distinct (map contact_id xs) \<Longrightarrow> c \<in> set xs \<Longrightarrow> r \<in> set xs \<Longrightarrow>
   contact_id r = contact_id c \<Longrightarrow> r = c"
  by (auto simp: distinct_map dest: inj_onD)

lemma rewrite_by_key:
  assumes "distinct (map contact_id xs)" and "c \<in> set xs"
  shows "map (\<lambda>r. if contact_id r = contact_id c then f r else r) xs =
         map (\<lambda>r. if r = c then f c else r) xs"
proof (rule map_cong [OF refl])
  fix r
  assume "r \<in> set xs"
  with assms have "contact_id r = contact_id c \<longleftrightarrow> r = c"
    by (auto dest: same_key_same_row)
  then show "(if contact_id r = contact_id c then f r else r) = (if r = c then f c else r)"
    by auto
qed

lemma create_keeps_primary_key:
  assumes "primary_key s" and "sequence_ahead s"
  shows "primary_key (snd (create_contact column_default body owner s)) \<and>
         sequence_ahead (snd (create_contact column_default body owner s))"
proof -
  from assms(2) have "\<forall>r \<in> set (rows s). contact_id r < next_id s"
    by (simp add: sequence_ahead_def list_all_iff)
  with assms(1) show ?thesis
    by (auto simp: create_contact_def Let_def primary_key_def sequence_ahead_def list_all_iff
        contact_fields.defs contact.defs)
qed

section \<open>The contact store\<close>

text \<open>
  C3. Whenever the table has no row with the given identifier and the given owner, also when
  a row with that identifier belongs to another user, \<open>get_contact\<close> returns nothing.
\<close>

theorem get_contact_absent:
  "\<not> (\<exists>c \<in> set (rows s). contact_id c = cid \<and> user c = owner) \<Longrightarrow>
   get_contact cid owner s = Inr None"
  by (simp add: get_contact_def execute_def no_match_filter scalar_one_or_none_Nil)

theorem get_contact_absent_witness:
  "(\<exists>c \<in> set (rows three_rows). contact_id c = 2 \<and> user c = 2) \<and>
   get_contact 2 1 three_rows = Inr None"
  using get_contact_absent [where s = three_rows and cid = 2 and owner = 1]
  by (simp add: three_rows_def person_def)

text \<open>
  C4. Every contact that \<open>get_contacts\<close> returns for a user is owned by that user, for
  every table and every limit and offset.
\<close>

theorem get_contacts_owned:
  "\<forall>c \<in> set (get_contacts limit offset owner s). user c = owner"
proof
  fix c
  assume "c \<in> set (get_contacts limit offset owner s)"
  then have "c \<in> set (take limit (drop offset (filter (\<lambda>c. user c = owner) (rows s))))"
    by (simp add: get_contacts_def execute_def scalars_all_def offset_limit_def)
  then have "c \<in> set (filter (\<lambda>c. user c = owner) (rows s))"
    by (blast dest: in_set_takeD in_set_dropD)
  then show "user c = owner" by simp
qed

theorem get_contacts_owned_witness:
  "get_contacts 10 0 1 three_rows =
     [person ''Ann'' (Some (ymd 1990 1 3)) 1 1, person ''Cid'' None 3 1] \<and>
   map user (get_contacts 10 0 1 three_rows) = [1, 1]"
  using get_contacts_owned [where limit = 10 and offset = 0 and owner = 1 and s = three_rows]
  by (simp add: get_contacts_def execute_def scalars_all_def offset_limit_def three_rows_def person_def)

text \<open>
  C5. When the table has no row with the given identifier and owner, \<open>update_contact\<close>
  returns nothing and the store it leaves is the store it was given.
\<close>

theorem update_contact_absent:
  "\<not> (\<exists>c \<in> set (rows s). contact_id c = cid \<and> user c = owner) \<Longrightarrow>
   update_contact cid body owner s = Inr (None, s)"
  by (simp add: update_contact_def execute_def no_match_filter scalar_one_or_none_Nil)

theorem update_contact_absent_witness:
  "(\<exists>c \<in> set (rows three_rows). contact_id c = 2) \<and>
   update_contact 2 new_fields 1 three_rows = Inr (None, three_rows)"
  using update_contact_absent [where s = three_rows and cid = 2 and owner = 1 and body = new_fields]
  by (simp add: three_rows_def person_def)

text \<open>
  C6. When the table holds a row with the given identifier and owner, \<open>update_contact\<close>
  writes all nine fields of the body into it, keeps its identifier and its owner, changes no
  other row, and returns the row as it now is in the table.
\<close>

theorem update_contact_replaces:
  assumes "primary_key s" and "c \<in> set (rows s)" and "contact_id c = cid" and "user c = owner"
  shows "\<exists>c' s'. update_contact cid body owner s = Inr (Some c', s') \<and>
           first_name c' = first_name body \<and> last_name c' = last_name body \<and>
           email c' = email body \<and> phone_number c' = phone_number body \<and>
           birthday c' = birthday body \<and> address c' = address body \<and>
           notes c' = notes body \<and> interests c' = interests body \<and>
           is_active c' = is_active body \<and>
           contact_id c' = contact_id c \<and> user c' = user c \<and>
           rows s' = map (\<lambda>r. if r = c then c' else r) (rows s) \<and>
           next_id s' = next_id s \<and>
           get_contact cid owner s' = Inr (Some c')"
proof -
  let ?c' = "assign_fields body c"
  let ?s' = "s\<lparr>rows := map (\<lambda>r. if r = c then ?c' else r) (rows s)\<rparr>"
  from assms have d: "distinct (map contact_id (rows s))"
    by (simp add: primary_key_def)
  from d assms(2,4) have sel: "filter (\<lambda>r. contact_id r = contact_id c \<and> user r = owner) (rows s) = [c]"
    by (rule unique_match)
  have upd: "update_contact cid body owner s = Inr (Some ?c', ?s')"
    using sel assms(3) rewrite_by_key [OF d assms(2), of "assign_fields body"]
    by (simp add: update_contact_def execute_def scalar_one_or_none_single)
  have keys: "map contact_id (rows ?s') = map contact_id (rows s)"
    by (simp add: assign_fields_key cong: map_cong)
  have mem: "?c' \<in> set (rows ?s')"
    using assms(2) by (force simp: image_iff)
  have "filter (\<lambda>r. contact_id r = contact_id ?c' \<and> user r = owner) (rows ?s') = [?c']"
    using d mem assms(4) by (intro unique_match) (simp_all only: keys assign_fields_user)
  then have get: "get_contact cid owner ?s' = Inr (Some ?c')"
    using assms(3) by (simp add: get_contact_def execute_def scalar_one_or_none_single assign_fields_key)
  have fields: "first_name ?c' = first_name body \<and> last_name ?c' = last_name body \<and>
           email ?c' = email body \<and> phone_number ?c' = phone_number body \<and>
           birthday ?c' = birthday body \<and> address ?c' = address body \<and>
           notes ?c' = notes body \<and> interests ?c' = interests body \<and>
           is_active ?c' = is_active body"
    by (simp add: assign_fields_def)
  from upd get fields show ?thesis
    by (intro exI [of _ ?c'] exI [of _ ?s']) (simp add: assign_fields_key assign_fields_user)
qed


theorem update_contact_replaces_witness:
  "primary_key three_rows \<and>
   (\<exists>c' s'. update_contact 1 new_fields 1 three_rows = Inr (Some c', s') \<and>
      first_name c' = ''Dan'' \<and> last_name c' = ''Roe'' \<and> is_active c' = False \<and>
      birthday c' = Some (ymd 2001 2 28) \<and> contact_id c' = 1 \<and> user c' = 1 \<and>
      rows s' = [c', person ''Bob'' (Some (ymd 1985 7 14)) 2 2, person ''Cid'' None 3 1] \<and>
      get_contact 1 1 s' = Inr (Some c'))"
proof -
  let ?c = "person ''Ann'' (Some (ymd 1990 1 3)) 1 1"
  have pk: "primary_key three_rows"
    by (simp add: primary_key_def three_rows_def person_def)
  have mem: "?c \<in> set (rows three_rows)"
    by (simp add: three_rows_def)
  have key: "contact_id ?c = 1" and own: "user ?c = 1"
    by (simp_all add: person_def)
  from update_contact_replaces [OF pk mem key own, of new_fields]
  obtain c' s' where *: "update_contact 1 new_fields 1 three_rows = Inr (Some c', s')"
      "first_name c' = first_name new_fields" "last_name c' = last_name new_fields"
      "is_active c' = is_active new_fields" "birthday c' = birthday new_fields"
      "contact_id c' = contact_id ?c" "user c' = user ?c"
      "rows s' = map (\<lambda>r. if r = ?c then c' else r) (rows three_rows)"
      "get_contact 1 1 s' = Inr (Some c')"
    by blast
  have other: "person ''Bob'' (Some (ymd 1985 7 14)) 2 2 \<noteq> ?c" "person ''Cid'' None 3 1 \<noteq> ?c"
    by (simp_all add: person_def)
  from * other have "rows s' = [c', person ''Bob'' (Some (ymd 1985 7 14)) 2 2, person ''Cid'' None 3 1]"
    by (simp add: three_rows_def)
  with * pk key own show ?thesis
    by (auto simp: new_fields_def)
qed

text \<open>
  C7. After \<open>delete_contact\<close> for an identifier and an owner, \<open>get_contact\<close> for
  the same pair finds nothing in the store the deletion left.
\<close>

theorem delete_then_get_absent:
  assumes "primary_key s"
  shows "\<exists>r s'. delete_contact cid owner s = Inr (r, s') \<and> get_contact cid owner s' = Inr None"
proof -
  let ?sel = "filter (\<lambda>r. contact_id r = cid \<and> user r = owner) (rows s)"
  from assms have d: "distinct (map contact_id (rows s))"
    by (simp add: primary_key_def)
  from at_most_one_match [OF d, of cid "\<lambda>r. user r = owner"]
  consider "?sel = []" | c where "contact_id c = cid" and "?sel = [c]"
    by blast
  then show ?thesis
  proof cases
    case 1
    then have "delete_contact cid owner s = Inr (None, s)" and "get_contact cid owner s = Inr None"
      by (simp_all add: delete_contact_def get_contact_def execute_def scalar_one_or_none_Nil)
    then show ?thesis by blast
  next
    case (2 c)
    let ?s' = "s\<lparr>rows := filter (\<lambda>r. contact_id r \<noteq> cid) (rows s)\<rparr>"
    from 2 have "delete_contact cid owner s = Inr (Some c, ?s')"
      by (simp add: delete_contact_def execute_def scalar_one_or_none_single)
    moreover have "filter (\<lambda>r. contact_id r = cid \<and> user r = owner) (rows ?s') = []"
      by (auto simp: filter_empty_conv)
    then have "get_contact cid owner ?s' = Inr None"
      by (simp add: get_contact_def execute_def scalar_one_or_none_Nil)
    ultimately show ?thesis by blast
  qed
qed

theorem delete_then_get_absent_witness:
  "primary_key three_rows \<and> get_contact 3 1 three_rows = Inr (Some (person ''Cid'' None 3 1)) \<and>
   (\<exists>r s'. delete_contact 3 1 three_rows = Inr (r, s') \<and> get_contact 3 1 s' = Inr None)"
proof -
  have pk: "primary_key three_rows"
    by (simp add: primary_key_def three_rows_def person_def)
  have "get_contact 3 1 three_rows = Inr (Some (person ''Cid'' None 3 1))"
    by (simp add: get_contact_def execute_def scalar_one_or_none_def three_rows_def person_def)
  with pk delete_then_get_absent [OF pk, of 3 1] show ?thesis by simp
qed

text \<open>
  C8. \<open>create_contact\<close> followed by \<open>get_contact\<close> with the assigned identifier and
  the same owner returns the created record: its identifier is the one drawn from the
  sequence, its owner is the caller, and every field the request has set holds the submitted
  value.
\<close>

theorem create_then_get:
  assumes "sequence_ahead s"
  shows "\<exists>c s'. create_contact column_default body owner s = (c, s') \<and>
           get_contact (contact_id c) owner s' = Inr (Some c) \<and>
           contact_id c = next_id s \<and> contact_id c \<notin> contact_id ` set (rows s) \<and>
           user c = owner \<and> rows s' = rows s @ [c] \<and>
           (First_name \<in> model_fields_set body \<longrightarrow> first_name c = first_name body) \<and>
           (Last_name \<in> model_fields_set body \<longrightarrow> last_name c = last_name body) \<and>
           (Email \<in> model_fields_set body \<longrightarrow> email c = email body) \<and>
           (Phone_number \<in> model_fields_set body \<longrightarrow> phone_number c = phone_number body) \<and>
           (Birthday \<in> model_fields_set body \<longrightarrow> birthday c = birthday body) \<and>
           (Address \<in> model_fields_set body \<longrightarrow> address c = address body) \<and>
           (Notes \<in> model_fields_set body \<longrightarrow> notes c = notes body) \<and>
           (Interests \<in> model_fields_set body \<longrightarrow> interests c = interests body) \<and>
           (Is_active \<in> model_fields_set body \<longrightarrow> is_active c = is_active body)"
proof -
  let ?c = "contact_fields.extend (model_dump column_default body) (contact.fields (next_id s) owner)"
  let ?s' = "\<lparr>rows = rows s @ [?c], next_id = next_id s + 1\<rparr>"
  have key: "contact_id ?c = next_id s" and own: "user ?c = owner"
    by (simp_all add: contact_fields.defs contact.defs)
  from assms have below: "\<forall>r \<in> set (rows s). contact_id r < next_id s"
    by (simp add: sequence_ahead_def list_all_iff)
  then have fresh: "next_id s \<notin> contact_id ` set (rows s)"
    by auto
  from below have "filter (\<lambda>r. contact_id r = next_id s \<and> user r = owner) (rows s) = []"
    by (auto simp: filter_empty_conv)
  with key own have get: "get_contact (contact_id ?c) owner ?s' = Inr (Some ?c)"
    by (simp add: get_contact_def execute_def scalar_one_or_none_single)
  have made: "create_contact column_default body owner s = (?c, ?s')"
    by (simp add: create_contact_def Let_def)
  have fields:
    "(First_name \<in> model_fields_set body \<longrightarrow> first_name ?c = first_name body) \<and>
     (Last_name \<in> model_fields_set body \<longrightarrow> last_name ?c = last_name body) \<and>
     (Email \<in> model_fields_set body \<longrightarrow> email ?c = email body) \<and>
     (Phone_number \<in> model_fields_set body \<longrightarrow> phone_number ?c = phone_number body) \<and>
     (Birthday \<in> model_fields_set body \<longrightarrow> birthday ?c = birthday body) \<and>
     (Address \<in> model_fields_set body \<longrightarrow> address ?c = address body) \<and>
     (Notes \<in> model_fields_set body \<longrightarrow> notes ?c = notes body) \<and>
     (Interests \<in> model_fields_set body \<longrightarrow> interests ?c = interests body) \<and>
     (Is_active \<in> model_fields_set body \<longrightarrow> is_active ?c = is_active body)"
    by (simp add: model_dump_def contact_fields.defs contact.defs)
  from made get key own fresh fields show ?thesis
    by (intro exI [of _ ?c] exI [of _ ?s']) simp
qed

theorem create_then_get_witness:
  "sequence_ahead three_rows \<and>
   (\<exists>c s'. create_contact blank_fields new_body 2 three_rows = (c, s') \<and>
      get_contact (contact_id c) 2 s' = Inr (Some c) \<and> contact_id c = 4 \<and> user c = 2 \<and>
      first_name c = ''Dan'' \<and> last_name c = ''Roe'' \<and> email c = ''roe@example.com'' \<and>
      phone_number c = ''555'' \<and> birthday c = Some (ymd 2001 2 28) \<and> address c = ''Lviv'' \<and>
      notes c = ''met in May'' \<and> interests c = [])"
proof -
  have ahead: "sequence_ahead three_rows"
    by (simp add: sequence_ahead_def three_rows_def person_def)
  have set_fields: "First_name \<in> model_fields_set new_body" "Last_name \<in> model_fields_set new_body"
      "Email \<in> model_fields_set new_body" "Phone_number \<in> model_fields_set new_body"
      "Birthday \<in> model_fields_set new_body" "Address \<in> model_fields_set new_body"
      "Notes \<in> model_fields_set new_body" "Interests \<in> model_fields_set new_body"
    by (simp_all add: new_body_def contact_fields.defs contact_schema.defs)
  have vals: "first_name new_body = ''Dan''" "last_name new_body = ''Roe''"
      "email new_body = ''roe@example.com''" "phone_number new_body = ''555''"
      "birthday new_body = Some (ymd 2001 2 28)" "address new_body = ''Lviv''"
      "notes new_body = ''met in May''" "interests new_body = []"
    by (simp_all add: new_body_def new_fields_def contact_fields.defs contact_schema.defs)
  have seq: "next_id three_rows = 4"
    by (simp add: three_rows_def)
  from create_then_get [OF ahead, of blank_fields new_body 2] set_fields vals seq ahead
  show ?thesis by auto
qed

text \<open>
  C9. \<open>delete_all_contact\<close> selects by identifier alone: a row with that identifier is
  removed and returned whoever owns it and whoever calls; when no row has the identifier
  the result is nothing and the store is unchanged.
\<close>

theorem delete_all_contact_by_id:
  assumes "primary_key s"
  shows "(\<forall>c \<in> set (rows s). contact_id c = cid \<longrightarrow>
            delete_all_contact cid caller s = Inr (Some c, s\<lparr>rows := remove1 c (rows s)\<rparr>) \<and>
            cid \<notin> contact_id ` set (remove1 c (rows s))) \<and>
         (cid \<notin> contact_id ` set (rows s) \<longrightarrow> delete_all_contact cid caller s = Inr (None, s))"
proof (intro conjI ballI impI)
  from assms have d: "distinct (map contact_id (rows s))"
    by (simp add: primary_key_def)
  fix c
  assume c: "c \<in> set (rows s)" "contact_id c = cid"
  from unique_match [OF d c(1), of "\<lambda>r. True"] c(2)
  have sel: "filter (\<lambda>r. contact_id r = cid) (rows s) = [c]"
    by simp
  from remove_by_key [OF d c(1)] c(2)
  have rest: "filter (\<lambda>r. contact_id r \<noteq> cid) (rows s) = remove1 c (rows s)"
    by simp
  from sel rest c(2) show "delete_all_contact cid caller s = Inr (Some c, s\<lparr>rows := remove1 c (rows s)\<rparr>)"
    by (simp add: delete_all_contact_def execute_def scalar_one_or_none_single)
  have "cid \<notin> contact_id ` set (filter (\<lambda>r. contact_id r \<noteq> cid) (rows s))"
    by auto
  with rest show "cid \<notin> contact_id ` set (remove1 c (rows s))"
    by simp
next
  assume "cid \<notin> contact_id ` set (rows s)"
  then have "filter (\<lambda>r. contact_id r = cid) (rows s) = []"
    by (auto simp: filter_empty_conv)
  then show "delete_all_contact cid caller s = Inr (None, s)"
    by (simp add: delete_all_contact_def execute_def scalar_one_or_none_Nil)
qed

theorem delete_all_contact_by_id_witness:
  "primary_key three_rows \<and> user (person ''Bob'' (Some (ymd 1985 7 14)) 2 2) \<noteq> 1 \<and>
   delete_all_contact 2 1 three_rows =
     Inr (Some (person ''Bob'' (Some (ymd 1985 7 14)) 2 2),
          \<lparr>rows = [person ''Ann'' (Some (ymd 1990 1 3)) 1 1, person ''Cid'' None 3 1], next_id = 4\<rparr>) \<and>
   delete_all_contact 7 1 three_rows = Inr (None, three_rows)"
proof -
  have pk: "primary_key three_rows"
    by (simp add: primary_key_def three_rows_def person_def)
  have mem: "person ''Bob'' (Some (ymd 1985 7 14)) 2 2 \<in> set (rows three_rows)"
    by (simp add: three_rows_def)
  have none: "7 \<notin> contact_id ` set (rows three_rows)"
    by (simp add: three_rows_def person_def)
  from delete_all_contact_by_id [OF pk, of 2 1] mem
  have "delete_all_contact 2 1 three_rows =
          Inr (Some (person ''Bob'' (Some (ymd 1985 7 14)) 2 2),
               three_rows\<lparr>rows := remove1 (person ''Bob'' (Some (ymd 1985 7 14)) 2 2) (rows three_rows)\<rparr>)"
    by (simp add: person_def)
  moreover have "three_rows\<lparr>rows := remove1 (person ''Bob'' (Some (ymd 1985 7 14)) 2 2) (rows three_rows)\<rparr> =
      \<lparr>rows = [person ''Ann'' (Some (ymd 1990 1 3)) 1 1, person ''Cid'' None 3 1], next_id = 4\<rparr>"
    by (simp add: three_rows_def person_def)
  moreover from delete_all_contact_by_id [OF pk, of 7 1] none
  have "delete_all_contact 7 1 three_rows = Inr (None, three_rows)"
    by simp
  ultimately show ?thesis using pk by (simp add: person_def)
qed

section \<open>The birthday query\<close>

text \<open>
  C10. The argument \<open>future_date\<close> has no effect: two calls that differ only in it return
  the same result.
\<close>

theorem future_date_ignored:
  "get_contact_with_upcoming_birthday now upcoming_days limit offset owner future_date s =
   get_contact_with_upcoming_birthday now upcoming_days limit offset owner future_date' s"
  by (simp add: get_contact_with_upcoming_birthday_def)

lemma between_inclusive:
  "date_le lo hi \<Longrightarrow> between (Some lo) lo hi \<and> between (Some hi) lo hi"
  by (auto simp: between_def date_le_def)

text \<open>
  C1. Today is 27 December 2024 and the window is 10 days, so it ends on 6 January 2025.
  The statement compares whole dates: of two contacts of the caller with birthdays on
  3 January, the one born in 1990 is not selected and the one dated 2025 is. The function
  then returns the second fetch of the result, which is empty, so neither is returned.
\<close>

theorem year_boundary_window_misses:
  "date_add (ymd 2024 12 27) 10 = Inr (ymd 2025 1 6) \<and>
   upcoming_statement (ymd 2024 12 27) (ymd 2025 1 6) 10 0 1 window_rows =
     [person ''Eve'' (Some (ymd 2025 1 3)) 2 1] \<and>
   get_contact_with_upcoming_birthday (ymd 2024 12 27) 10 10 0 1 None window_rows = Inr []"
  by code_simp

text \<open>
  C2. Today is 1 June 2023 and the window is 365 days, so it ends on 31 May 2024. The
  statement selects the contact whose whole date is 31 May 2024, not the one born on
  31 May 1990 and not the one dated 1 June 2024; the function returns the empty second
  fetch.
\<close>

theorem full_year_window_misses:
  "date_add (ymd 2023 6 1) 365 = Inr (ymd 2024 5 31) \<and>
   date_add (ymd 2023 6 1) 366 = Inr (ymd 2024 6 1) \<and>
   upcoming_statement (ymd 2023 6 1) (ymd 2024 5 31) 10 0 1 year_rows =
     [person ''Gus'' (Some (ymd 2024 5 31)) 2 1] \<and>
   get_contact_with_upcoming_birthday (ymd 2023 6 1) 365 10 0 1 None year_rows = Inr []"
  by code_simp

end
